theory Spec2Isabelle
  imports Complex_Main
begin

section \<open>Numbers of the program\<close>

text \<open>
  The program computes with IEEE-754 doubles. A double is modelled by its value: a finite
  double is the real number it denotes, and the three special values are kept, because
  NumPy produces them where Python raises. Rounding, overflow, underflow and the sign of
  zero are not modelled: arithmetic on finite values is exact, and a zero divisor is +0.0.
\<close>

datatype f64 = Fin real | PInf | NInf | NaN

text \<open>
  A number is a built-in Python number (\<open>float\<close>, \<open>int\<close>) or a NumPy scalar
  (\<open>np.float64\<close>). The two differ in one place: dividing by zero raises for built-in
  numbers and yields \<open>inf\<close> or \<open>nan\<close> as soon as one operand is a NumPy scalar
  (the warning NumPy emits is switched off by \<open>warnings.filterwarnings('ignore')\<close>).
  An operation with one NumPy operand returns a NumPy scalar.
\<close>

datatype kind = PyNum | NpNum

datatype error = ZeroDivisionError | ValueError | IndexError

type_synonym num = "kind \<times> f64"

definition py :: "real \<Rightarrow> num" where
  "py x = (PyNum, Fin x)"

definition np :: "real \<Rightarrow> num" where
  "np x = (NpNum, Fin x)"

fun is_zero :: "f64 \<Rightarrow> bool" where
  "is_zero (Fin x) = (x = 0)"
| "is_zero PInf = False"
| "is_zero NInf = False"
| "is_zero NaN = False"

fun is_neg :: "f64 \<Rightarrow> bool" where
  "is_neg (Fin x) = (x < 0)"
| "is_neg PInf = False"
| "is_neg NInf = True"
| "is_neg NaN = False"

definition mk_inf :: "bool \<Rightarrow> f64" where
  "mk_inf neg = (if neg then NInf else PInf)"

fun fmul :: "f64 \<Rightarrow> f64 \<Rightarrow> f64" where
  "fmul NaN b = NaN"
| "fmul (Fin x) NaN = NaN"
| "fmul PInf NaN = NaN"
| "fmul NInf NaN = NaN"
| "fmul (Fin x) (Fin y) = Fin (x * y)"
| "fmul (Fin x) PInf = (if x = 0 then NaN else mk_inf (x < 0))"
| "fmul (Fin x) NInf = (if x = 0 then NaN else mk_inf (0 < x))"
| "fmul PInf (Fin y) = (if y = 0 then NaN else mk_inf (y < 0))"
| "fmul NInf (Fin y) = (if y = 0 then NaN else mk_inf (0 < y))"
| "fmul PInf PInf = PInf"
| "fmul PInf NInf = NInf"
| "fmul NInf PInf = NInf"
| "fmul NInf NInf = PInf"

fun fadd :: "f64 \<Rightarrow> f64 \<Rightarrow> f64" where
  "fadd NaN b = NaN"
| "fadd (Fin x) NaN = NaN"
| "fadd PInf NaN = NaN"
| "fadd NInf NaN = NaN"
| "fadd (Fin x) (Fin y) = Fin (x + y)"
| "fadd (Fin x) PInf = PInf"
| "fadd (Fin x) NInf = NInf"
| "fadd PInf (Fin y) = PInf"
| "fadd NInf (Fin y) = NInf"
| "fadd PInf PInf = PInf"
| "fadd PInf NInf = NaN"
| "fadd NInf PInf = NaN"
| "fadd NInf NInf = NInf"

text \<open>IEEE division, as NumPy performs it: no case raises.\<close>

fun fdiv :: "f64 \<Rightarrow> f64 \<Rightarrow> f64" where
  "fdiv NaN b = NaN"
| "fdiv (Fin x) NaN = NaN"
| "fdiv PInf NaN = NaN"
| "fdiv NInf NaN = NaN"
| "fdiv (Fin x) (Fin y) =
     (if y = 0 then (if x = 0 then NaN else mk_inf (x < 0)) else Fin (x / y))"
| "fdiv (Fin x) PInf = Fin 0"
| "fdiv (Fin x) NInf = Fin 0"
| "fdiv PInf (Fin y) = mk_inf (y < 0)"
| "fdiv NInf (Fin y) = mk_inf (0 \<le> y)"
| "fdiv PInf PInf = NaN"
| "fdiv PInf NInf = NaN"
| "fdiv NInf PInf = NaN"
| "fdiv NInf NInf = NaN"

text \<open>\<open>np.minimum\<close> and \<open>np.maximum\<close> propagate NaN.\<close>

fun fmin :: "f64 \<Rightarrow> f64 \<Rightarrow> f64" where
  "fmin NaN b = NaN"
| "fmin (Fin x) NaN = NaN"
| "fmin PInf NaN = NaN"
| "fmin NInf NaN = NaN"
| "fmin (Fin x) (Fin y) = Fin (min x y)"
| "fmin (Fin x) PInf = Fin x"
| "fmin (Fin x) NInf = NInf"
| "fmin PInf (Fin y) = Fin y"
| "fmin NInf (Fin y) = NInf"
| "fmin PInf PInf = PInf"
| "fmin PInf NInf = NInf"
| "fmin NInf PInf = NInf"
| "fmin NInf NInf = NInf"

fun fmax :: "f64 \<Rightarrow> f64 \<Rightarrow> f64" where
  "fmax NaN b = NaN"
| "fmax (Fin x) NaN = NaN"
| "fmax PInf NaN = NaN"
| "fmax NInf NaN = NaN"
| "fmax (Fin x) (Fin y) = Fin (max x y)"
| "fmax (Fin x) PInf = PInf"
| "fmax (Fin x) NInf = Fin x"
| "fmax PInf (Fin y) = PInf"
| "fmax NInf (Fin y) = Fin y"
| "fmax PInf PInf = PInf"
| "fmax PInf NInf = PInf"
| "fmax NInf PInf = PInf"
| "fmax NInf NInf = NInf"

definition join :: "kind \<Rightarrow> kind \<Rightarrow> kind" where
  "join a b = (if a = PyNum \<and> b = PyNum then PyNum else NpNum)"

definition num_mul :: "num \<Rightarrow> num \<Rightarrow> num" where
  "num_mul a b = (join (fst a) (fst b), fmul (snd a) (snd b))"

definition num_add :: "num \<Rightarrow> num \<Rightarrow> num" where
  "num_add a b = (join (fst a) (fst b), fadd (snd a) (snd b))"

text \<open>The operator \<open>/\<close>: \<open>ZeroDivisionError\<close> only between two built-in numbers.\<close>

definition num_div :: "num \<Rightarrow> num \<Rightarrow> error + num" where
  "num_div a b =
     (if fst a = PyNum \<and> fst b = PyNum \<and> is_zero (snd b) then Inl ZeroDivisionError
      else Inr (join (fst a) (fst b), fdiv (snd a) (snd b)))"

definition np_minimum :: "num \<Rightarrow> num \<Rightarrow> num" where
  "np_minimum a b = (NpNum, fmin (snd a) (snd b))"

definition np_maximum :: "num \<Rightarrow> num \<Rightarrow> num" where
  "np_maximum a b = (NpNum, fmax (snd a) (snd b))"

section \<open>The range model\<close>

text \<open>
  \<open>aeroforge_range_calc\<close>, statement by statement. The Python default
  \<open>cruise_hours=6\<close> is the constant \<open>cruise_hours_default\<close>, passed explicitly.
\<close>

definition cruise_hours_default :: num where
  "cruise_hours_default = py 6"

definition aeroforge_range_calc ::
    "num \<Rightarrow> num \<Rightarrow> num \<Rightarrow> num \<Rightarrow> num \<Rightarrow> num \<Rightarrow> num \<Rightarrow> num \<Rightarrow> num \<Rightarrow> num \<Rightarrow> error + num" where
  "aeroforge_range_calc eta_system epack_wh_per_kg m_batt_kg m_total_kg g l_over_d sfc_eq
       harvest_kw sic_efficiency_gain cruise_hours =
     (let e_pack_total_wh = num_mul epack_wh_per_kg m_batt_kg;
          e_harvest_wh = num_mul (num_mul harvest_kw (py 1000)) cruise_hours;
          eta_effective = num_mul eta_system sic_efficiency_gain;
          e_usable_wh = num_mul eta_effective (num_add e_pack_total_wh e_harvest_wh)
      in case num_div e_usable_wh
                (num_mul (num_mul (num_mul g l_over_d) sfc_eq) m_total_kg) of
           Inl e \<Rightarrow> Inl e
         | Inr r_m \<Rightarrow>
             (case num_div r_m (py 1000) of
                Inl e \<Rightarrow> Inl e
              | Inr q \<Rightarrow> Inr (np_maximum (py 0) (np_minimum (py 50000) q))))"

text \<open>
  The six steps of the specification's closed form, on real numbers: the reference the
  code is compared with.
\<close>

definition spec_range_km ::
    "real \<Rightarrow> real \<Rightarrow> real \<Rightarrow> real \<Rightarrow> real \<Rightarrow> real \<Rightarrow> real \<Rightarrow> real \<Rightarrow> real \<Rightarrow> real \<Rightarrow> real" where
  "spec_range_km eta epack mb mt g ld sfc hv sic ch =
     (let E_pack = epack * mb;
          E_harvest = hv * 1000 * ch;
          eta_eff = eta * sic;
          E_usable = eta_eff * (E_pack + E_harvest);
          R_m = E_usable / (g * ld * sfc * mt)
      in max 0 (min 50000 (R_m / 1000)))"

section \<open>The sampler and the Monte-Carlo runner\<close>

text \<open>
  NumPy's global generator is a state of some type \<open>'s\<close>, passed explicitly. The program
  uses it through two library calls, which are parameters of the model:
  \<open>seed_state seed\<close> is the state \<open>np.random.seed(seed)\<close> installs, and \<open>gauss st\<close> is one
  standard-normal draw from state \<open>st\<close> together with the state after the draw.
  \<open>np.random.randn(n)\<close> makes \<open>n\<close> draws in sequence.
\<close>

fun randn :: "('s \<Rightarrow> real \<times> 's) \<Rightarrow> 's \<Rightarrow> nat \<Rightarrow> real list \<times> 's" where
  "randn gauss st 0 = ([], st)"
| "randn gauss st (Suc n) =
     (case gauss st of (z, st1) \<Rightarrow>
        (case randn gauss st1 n of (zs, st2) \<Rightarrow> (z # zs, st2)))"

text \<open>
  The dictionary \<open>samples\<close> has the five keys \<open>'epack'\<close>, \<open>'l_over_d'\<close>, \<open>'harvest'\<close>,
  \<open>'sic_gain'\<close>, \<open>'eta'\<close>, and \<open>params_nom\<close> the nine keys below; both are records. An
  array of finite doubles is a list of reals.
\<close>

record samples =
  s_epack :: "real list"
  s_l_over_d :: "real list"
  s_harvest :: "real list"
  s_sic_gain :: "real list"
  s_eta :: "real list"

record params =
  p_eta_system :: real
  p_epack_wh_per_kg :: real
  p_m_batt_kg :: real
  p_m_total_kg :: real
  p_g :: real
  p_l_over_d :: real
  p_sfc_eq :: real
  p_harvest_kw :: real
  p_sic_efficiency_gain :: real

definition params_nom :: params where
  "params_nom =
     \<lparr>p_eta_system = 0.92, p_epack_wh_per_kg = 450, p_m_batt_kg = 25000,
      p_m_total_kg = 80000, p_g = 9.80665, p_l_over_d = 22, p_sfc_eq = 0.00015,
      p_harvest_kw = 15, p_sic_efficiency_gain = 1.08\<rparr>"

text \<open>\<open>nominal * (1 + rel * np.random.randn(n_runs))\<close>, element by element.\<close>

definition perturb :: "real \<Rightarrow> real \<Rightarrow> real list \<Rightarrow> real list" where
  "perturb nominal rel zs = map (\<lambda>z. nominal * (1 + rel * z)) zs"

definition np_maximum_arr :: "real \<Rightarrow> real list \<Rightarrow> real list" where
  "np_maximum_arr lo xs = map (\<lambda>x. max lo x) xs"

definition np_clip_arr :: "real list \<Rightarrow> real \<Rightarrow> real \<Rightarrow> real list" where
  "np_clip_arr xs lo hi = map (\<lambda>x. min hi (max lo x)) xs"

text \<open>
  The loop \<open>for i in range(n_runs): ranges_km[i] = aeroforge_range_calc(...)\<close> over the
  array \<open>ranges_km\<close>. An exception of a trial leaves the loop; an index outside an array
  raises.
\<close>

fun range_loop :: "samples \<Rightarrow> params \<Rightarrow> nat list \<Rightarrow> f64 list \<Rightarrow> error + f64 list" where
  "range_loop s p [] ranges_km = Inr ranges_km"
| "range_loop s p (i # rest) ranges_km =
     (if i < length (s_eta s) \<and> i < length (s_epack s) \<and> i < length (s_l_over_d s)
         \<and> i < length (s_harvest s) \<and> i < length (s_sic_gain s) \<and> i < length ranges_km
      then
        (case aeroforge_range_calc (np (s_eta s ! i)) (np (s_epack s ! i))
                (py (p_m_batt_kg p)) (py (p_m_total_kg p)) (py (p_g p))
                (np (s_l_over_d s ! i)) (py (p_sfc_eq p)) (np (s_harvest s ! i))
                (np (s_sic_gain s ! i)) cruise_hours_default of
           Inl e \<Rightarrow> Inl e
         | Inr r \<Rightarrow> range_loop s p rest (ranges_km[i := snd r]))
      else Inl IndexError)"

text \<open>
  \<open>run_aeroforge_montecarlo\<close>. The argument \<open>st\<close> is the generator state at the call;
  the result carries the state at the return. \<open>np.random.seed\<close> raises \<open>ValueError\<close>
  for a seed outside \<open>[0, 2**32 - 1]\<close>, \<open>np.random.randn\<close> for a negative size. The
  \<open>print\<close> calls are left out.
\<close>

definition run_aeroforge_montecarlo ::
    "(int \<Rightarrow> 's) \<Rightarrow> ('s \<Rightarrow> real \<times> 's) \<Rightarrow> 's \<Rightarrow> int \<Rightarrow> int
       \<Rightarrow> error + ((samples \<times> f64 list \<times> params) \<times> 's)" where
  "run_aeroforge_montecarlo seed_state gauss st n_runs seed =
     (if seed < 0 \<or> 2 ^ 32 \<le> seed then Inl ValueError
      else if n_runs < 0 then Inl ValueError
      else
        (let n = nat n_runs;
             st0 = seed_state seed;
             (z1, st1) = randn gauss st0 n;
             (z2, st2) = randn gauss st1 n;
             (z3, st3) = randn gauss st2 n;
             (z4, st4) = randn gauss st3 n;
             (z5, st5) = randn gauss st4 n;
             samples =
               \<lparr>s_epack = np_maximum_arr 200 (perturb (p_epack_wh_per_kg params_nom) 0.25 z1),
                s_l_over_d = np_maximum_arr 15 (perturb (p_l_over_d params_nom) 0.15 z2),
                s_harvest = np_maximum_arr 0 (perturb (p_harvest_kw params_nom) 0.4 z3),
                s_sic_gain =
                  np_maximum_arr 1.0 (perturb (p_sic_efficiency_gain params_nom) 0.2 z4),
                s_eta = np_clip_arr (perturb (p_eta_system params_nom) 0.1 z5) 0.7 0.98\<rparr>
         in case range_loop samples params_nom [0..<n] (replicate n (Fin 0)) of
              Inl e \<Rightarrow> Inl e
            | Inr ranges_km \<Rightarrow> Inr ((samples, ranges_km, params_nom), st5)))"

text \<open>
  A small deterministic generator, to run the model on concrete inputs: the state is a
  counter and the draws cycle through \<open>-2, -1, 0, 1, 2\<close>.
\<close>

definition demo_seed :: "int \<Rightarrow> nat" where
  "demo_seed seed = nat seed"

definition demo_gauss :: "nat \<Rightarrow> real \<times> nat" where
  "demo_gauss st = (real (st mod 5) - 2, Suc st)"

section \<open>Statistics\<close>

text \<open>
  The NumPy calls of \<open>analyze_results\<close> that the properties below are about, on arrays
  of finite doubles. Each follows the library's computation: the division is NumPy's, so
  an empty array gives \<open>nan\<close> and nothing raises.
\<close>

definition np_mean :: "real list \<Rightarrow> f64" where
  "np_mean xs = fdiv (Fin (sum_list xs)) (Fin (real (length xs)))"

fun fsqrt :: "f64 \<Rightarrow> f64" where
  "fsqrt (Fin x) = (if x < 0 then NaN else Fin (sqrt x))"
| "fsqrt PInf = PInf"
| "fsqrt NInf = NaN"
| "fsqrt NaN = NaN"

text \<open>
  The mean a deviation is taken from. For an empty array NumPy's mean is \<open>nan\<close>; there
  are then no deviations, and the value chosen here is never used.
\<close>

definition avg :: "real list \<Rightarrow> real" where
  "avg xs = (if xs = [] then 0 else sum_list xs / real (length xs))"

text \<open>
  \<open>np.var(a, ddof)\<close>: the sum of the squared deviations from the mean, divided by
  \<open>max(n - ddof, 0)\<close>. \<open>np.std(a)\<close> is its square root at the default \<open>ddof = 0\<close>,
  which is how \<open>analyze_results\<close> calls it.
\<close>

definition np_var :: "int \<Rightarrow> real list \<Rightarrow> f64" where
  "np_var ddof xs =
     (let arrmean = avg xs;
          x = map (\<lambda>a. (a - arrmean) * (a - arrmean)) xs;
          rcount = max (int (length xs) - ddof) 0
      in fdiv (Fin (sum_list x)) (Fin (real_of_int rcount)))"

definition np_std :: "real list \<Rightarrow> f64" where
  "np_std xs = fsqrt (np_var 0 xs)"

text \<open>\<open>np.sum(ranges_km >= T) / len(ranges_km) * 100\<close>.\<close>

definition target_rate :: "real \<Rightarrow> real list \<Rightarrow> f64" where
  "target_rate T ranges_km =
     fmul (fdiv (Fin (real (length (filter (\<lambda>r. T \<le> r) ranges_km))))
                (Fin (real (length ranges_km))))
          (Fin 100)"





text \<open>
  The population standard deviation in the words of the specification: the square root of
  the mean of the squared deviations from the mean, dividing by \<open>n\<close>.
\<close>

definition population_std :: "real list \<Rightarrow> real" where
  "population_std xs =
     sqrt ((\<Sum>x\<leftarrow>xs. (x - sum_list xs / real (length xs))\<^sup>2) / real (length xs))"

section \<open>Properties of the range model\<close>

lemmas range_eval =
  aeroforge_range_calc_def num_mul_def num_add_def num_div_def py_def np_def
  np_minimum_def np_maximum_def join_def mk_inf_def cruise_hours_default_def Let_def

lemma kind_not_py: "(k \<noteq> PyNum) = (k = NpNum)"
  by (cases k) simp_all

lemma range_calc_finite:
  assumes "g * ld * sfc * mt \<noteq> 0"
  shows "aeroforge_range_calc (k1, Fin eta) (k2, Fin epack) (k3, Fin mb) (k4, Fin mt)
           (k5, Fin g) (k6, Fin ld) (k7, Fin sfc) (k8, Fin hv) (k9, Fin sic) (k10, Fin ch)
         = Inr (NpNum, Fin (spec_range_km eta epack mb mt g ld sfc hv sic ch))"
  using assms
  by (simp add: aeroforge_range_calc_def num_mul_def num_add_def num_div_def py_def
      np_minimum_def np_maximum_def spec_range_km_def Let_def)




















section \<open>Properties of the sampler and the runner\<close>

lemma randn_length: "length (fst (randn gauss st n)) = n"
  by (induction n arbitrary: st) (simp_all add: split_beta)

lemma randn_add:
  "randn gauss st (m + n) =
     (case randn gauss st m of (a, s1) \<Rightarrow> (case randn gauss s1 n of (b, s2) \<Rightarrow> (a @ b, s2)))"
  by (induction m arbitrary: st) (simp_all split: prod.splits)

lemma randn_five:
  "randn gauss st (5 * n) =
     (case randn gauss st n of (z1, st1) \<Rightarrow>
      case randn gauss st1 n of (z2, st2) \<Rightarrow>
      case randn gauss st2 n of (z3, st3) \<Rightarrow>
      case randn gauss st3 n of (z4, st4) \<Rightarrow>
      case randn gauss st4 n of (z5, st5) \<Rightarrow> (z1 @ z2 @ z3 @ z4 @ z5, st5))"
proof -
  have "5 * n = n + (n + (n + (n + n)))" by simp
  then show ?thesis
    by (simp only: randn_add) (simp add: split_beta)
qed

text \<open>
  The loop of the runner on a batch whose lift-to-drag samples are not zero: every trial
  returns, and entry \<open>i\<close> of the array is the closed form on the samples of trial \<open>i\<close>.
\<close>

lemma range_loop_pipeline:
  assumes "\<forall>i\<in>set ixs. i < length (s_eta s) \<and> i < length (s_epack s)
         \<and> i < length (s_l_over_d s) \<and> i < length (s_harvest s)
         \<and> i < length (s_sic_gain s) \<and> i < length rs"
    and "\<forall>i\<in>set ixs. s_l_over_d s ! i \<noteq> 0"
    and "distinct ixs"
  shows "\<exists>rs'. range_loop s params_nom ixs rs = Inr rs' \<and> length rs' = length rs \<and>
           (\<forall>i<length rs. rs' ! i =
              (if i \<in> set ixs
               then Fin (spec_range_km (s_eta s ! i) (s_epack s ! i) 25000 80000 9.80665
                          (s_l_over_d s ! i) 0.00015 (s_harvest s ! i) (s_sic_gain s ! i) 6)
               else rs ! i))"
  using assms
proof (induction ixs arbitrary: rs)
  case Nil
  then show ?case by simp
next
  case (Cons i ixs)
  let ?v = "Fin (spec_range_km (s_eta s ! i) (s_epack s ! i) 25000 80000 9.80665
                          (s_l_over_d s ! i) 0.00015 (s_harvest s ! i) (s_sic_gain s ! i) 6)"
  have nz: "9.80665 * (s_l_over_d s ! i) * 0.00015 * 80000 \<noteq> 0"
    using Cons.prems(2) by simp
  have calc: "aeroforge_range_calc (np (s_eta s ! i)) (np (s_epack s ! i))
                (py (p_m_batt_kg params_nom)) (py (p_m_total_kg params_nom))
                (py (p_g params_nom)) (np (s_l_over_d s ! i)) (py (p_sfc_eq params_nom))
                (np (s_harvest s ! i)) (np (s_sic_gain s ! i)) cruise_hours_default
              = Inr (NpNum, ?v)"
    unfolding np_def py_def cruise_hours_default_def params_nom_def
    using range_calc_finite[OF nz] by simp
  have step: "range_loop s params_nom (i # ixs) rs = range_loop s params_nom ixs (rs[i := ?v])"
    using Cons.prems(1) calc by simp
  have "\<exists>rs'. range_loop s params_nom ixs (rs[i := ?v]) = Inr rs'
          \<and> length rs' = length (rs[i := ?v]) \<and>
           (\<forall>j<length (rs[i := ?v]). rs' ! j =
              (if j \<in> set ixs
               then Fin (spec_range_km (s_eta s ! j) (s_epack s ! j) 25000 80000 9.80665
                          (s_l_over_d s ! j) 0.00015 (s_harvest s ! j) (s_sic_gain s ! j) 6)
               else (rs[i := ?v]) ! j))"
    using Cons.prems by (intro Cons.IH) simp_all
  then obtain rs' where r: "range_loop s params_nom ixs (rs[i := ?v]) = Inr rs'"
      "length rs' = length rs"
      "\<forall>j<length rs. rs' ! j =
              (if j \<in> set ixs
               then Fin (spec_range_km (s_eta s ! j) (s_epack s ! j) 25000 80000 9.80665
                          (s_l_over_d s ! j) 0.00015 (s_harvest s ! j) (s_sic_gain s ! j) 6)
               else (rs[i := ?v]) ! j)"
    by auto
  have "\<forall>j<length rs. rs' ! j =
              (if j \<in> set (i # ixs)
               then Fin (spec_range_km (s_eta s ! j) (s_epack s ! j) 25000 80000 9.80665
                          (s_l_over_d s ! j) 0.00015 (s_harvest s ! j) (s_sic_gain s ! j) 6)
               else rs ! j)"
    using r(3) Cons.prems(3) by (auto simp add: nth_list_update)
  then show ?case using step r(1,2) by simp
qed

text \<open>
  What a returning run has done: the five sample arrays are the floored perturbations of
  five consecutive blocks of the stream of draws that follows the seeding.
\<close>

lemma run_samples:
  assumes "run_aeroforge_montecarlo seed_state gauss st n_runs seed = Inr ((s, rs, p), st')"
  shows "0 \<le> seed \<and> seed < 2 ^ 32 \<and> 0 \<le> n_runs \<and> p = params_nom \<and>
         s = \<lparr>s_epack = map (\<lambda>z. max 200 (450 * (1 + 0.25 * z)))
                  (take (nat n_runs) (fst (randn gauss (seed_state seed) (5 * nat n_runs)))),
              s_l_over_d = map (\<lambda>z. max 15 (22 * (1 + 0.15 * z)))
                  (take (nat n_runs) (drop (nat n_runs)
                     (fst (randn gauss (seed_state seed) (5 * nat n_runs))))),
              s_harvest = map (\<lambda>z. max 0 (15 * (1 + 0.4 * z)))
                  (take (nat n_runs) (drop (2 * nat n_runs)
                     (fst (randn gauss (seed_state seed) (5 * nat n_runs))))),
              s_sic_gain = map (\<lambda>z. max 1 (1.08 * (1 + 0.2 * z)))
                  (take (nat n_runs) (drop (3 * nat n_runs)
                     (fst (randn gauss (seed_state seed) (5 * nat n_runs))))),
              s_eta = map (\<lambda>z. min 0.98 (max 0.7 (0.92 * (1 + 0.1 * z))))
                  (take (nat n_runs) (drop (4 * nat n_runs)
                     (fst (randn gauss (seed_state seed) (5 * nat n_runs)))))\<rparr> \<and>
         st' = snd (randn gauss (seed_state seed) (5 * nat n_runs)) \<and>
         range_loop s params_nom [0..<nat n_runs] (replicate (nat n_runs) (Fin 0)) = Inr rs"
proof -
  obtain z1 st1 where r1: "randn gauss (seed_state seed) (nat n_runs) = (z1, st1)" by force
  obtain z2 st2 where r2: "randn gauss st1 (nat n_runs) = (z2, st2)" by force
  obtain z3 st3 where r3: "randn gauss st2 (nat n_runs) = (z3, st3)" by force
  obtain z4 st4 where r4: "randn gauss st3 (nat n_runs) = (z4, st4)" by force
  obtain z5 st5 where r5: "randn gauss st4 (nat n_runs) = (z5, st5)" by force
  have l: "length z1 = nat n_runs" "length z2 = nat n_runs" "length z3 = nat n_runs"
      "length z4 = nat n_runs" "length z5 = nat n_runs"
    using randn_length[of gauss "seed_state seed" "nat n_runs"]
      randn_length[of gauss st1 "nat n_runs"] randn_length[of gauss st2 "nat n_runs"]
      randn_length[of gauss st3 "nat n_runs"] randn_length[of gauss st4 "nat n_runs"]
      r1 r2 r3 r4 r5 by simp_all
  have five: "randn gauss (seed_state seed) (5 * nat n_runs) = (z1 @ z2 @ z3 @ z4 @ z5, st5)"
    by (simp add: randn_five r1 r2 r3 r4 r5)
  have blocks: "take (nat n_runs) (z1 @ z2 @ z3 @ z4 @ z5) = z1"
      "take (nat n_runs) (drop (nat n_runs) (z1 @ z2 @ z3 @ z4 @ z5)) = z2"
      "take (nat n_runs) (drop (2 * nat n_runs) (z1 @ z2 @ z3 @ z4 @ z5)) = z3"
      "take (nat n_runs) (drop (3 * nat n_runs) (z1 @ z2 @ z3 @ z4 @ z5)) = z4"
      "take (nat n_runs) (drop (4 * nat n_runs) (z1 @ z2 @ z3 @ z4 @ z5)) = z5"
    using l by simp_all
  show ?thesis
    using assms unfolding five fst_conv snd_conv blocks
    by (simp add: run_aeroforge_montecarlo_def Let_def r1 r2 r3 r4 r5
        np_maximum_arr_def perturb_def np_clip_arr_def params_nom_def comp_def
        split: if_splits sum.splits)
qed

lemma run_lengths:
  assumes "run_aeroforge_montecarlo seed_state gauss st n_runs seed = Inr ((s, rs, p), st')"
  shows "length (s_epack s) = nat n_runs \<and> length (s_l_over_d s) = nat n_runs
         \<and> length (s_harvest s) = nat n_runs \<and> length (s_sic_gain s) = nat n_runs
         \<and> length (s_eta s) = nat n_runs"
proof -
  have "length (fst (randn gauss (seed_state seed) (5 * nat n_runs))) = 5 * nat n_runs"
    by (rule randn_length)
  then show ?thesis
    using run_samples[OF assms, THEN conjunct2, THEN conjunct2, THEN conjunct2, THEN conjunct2,
        THEN conjunct1]
    by simp
qed

lemma run_bounds:
  assumes "run_aeroforge_montecarlo seed_state gauss st n_runs seed = Inr ((s, rs, p), st')"
    and "i < nat n_runs"
  shows "200 \<le> s_epack s ! i \<and> 15 \<le> s_l_over_d s ! i \<and> 0 \<le> s_harvest s ! i
         \<and> 1 \<le> s_sic_gain s ! i \<and> 0.7 \<le> s_eta s ! i \<and> s_eta s ! i \<le> 0.98"
proof -
  have len: "length (fst (randn gauss (seed_state seed) (5 * nat n_runs))) = 5 * nat n_runs"
    by (rule randn_length)
  show ?thesis
    using run_samples[OF assms(1), THEN conjunct2, THEN conjunct2, THEN conjunct2,
        THEN conjunct2, THEN conjunct1] len assms(2)
    by simp
qed


text \<open>With a seed NumPy accepts and a trial count that is not negative, the run returns.\<close>

lemma run_returns:
  assumes "0 \<le> seed" "seed < 2 ^ 32" "0 \<le> n_runs"
  shows "\<exists>s rs st'. run_aeroforge_montecarlo seed_state gauss st n_runs seed
                      = Inr ((s, rs, params_nom), st')"
proof -
  obtain z1 st1 where r1: "randn gauss (seed_state seed) (nat n_runs) = (z1, st1)" by force
  obtain z2 st2 where r2: "randn gauss st1 (nat n_runs) = (z2, st2)" by force
  obtain z3 st3 where r3: "randn gauss st2 (nat n_runs) = (z3, st3)" by force
  obtain z4 st4 where r4: "randn gauss st3 (nat n_runs) = (z4, st4)" by force
  obtain z5 st5 where r5: "randn gauss st4 (nat n_runs) = (z5, st5)" by force
  have l: "length z1 = nat n_runs" "length z2 = nat n_runs" "length z3 = nat n_runs"
      "length z4 = nat n_runs" "length z5 = nat n_runs"
    using randn_length[of gauss "seed_state seed" "nat n_runs"]
      randn_length[of gauss st1 "nat n_runs"] randn_length[of gauss st2 "nat n_runs"]
      randn_length[of gauss st3 "nat n_runs"] randn_length[of gauss st4 "nat n_runs"]
      r1 r2 r3 r4 r5 by simp_all
  define S where "S =
     \<lparr>s_epack = np_maximum_arr 200 (perturb (p_epack_wh_per_kg params_nom) 0.25 z1),
      s_l_over_d = np_maximum_arr 15 (perturb (p_l_over_d params_nom) 0.15 z2),
      s_harvest = np_maximum_arr 0 (perturb (p_harvest_kw params_nom) 0.4 z3),
      s_sic_gain = np_maximum_arr 1.0 (perturb (p_sic_efficiency_gain params_nom) 0.2 z4),
      s_eta = np_clip_arr (perturb (p_eta_system params_nom) 0.1 z5) 0.7 0.98\<rparr>"
  have a: "\<forall>i\<in>set [0..<nat n_runs]. i < length (s_eta S) \<and> i < length (s_epack S)
         \<and> i < length (s_l_over_d S) \<and> i < length (s_harvest S)
         \<and> i < length (s_sic_gain S) \<and> i < length (replicate (nat n_runs) (Fin 0 :: f64))"
    using l by (simp add: S_def np_maximum_arr_def perturb_def np_clip_arr_def)
  have b: "\<forall>i\<in>set [0..<nat n_runs]. s_l_over_d S ! i \<noteq> 0"
  proof
    fix i assume "i \<in> set [0..<nat n_runs]"
    then have "i < length z2" using l by simp
    then have "15 \<le> s_l_over_d S ! i"
      by (simp add: S_def np_maximum_arr_def perturb_def)
    then show "s_l_over_d S ! i \<noteq> 0" by simp
  qed
  obtain rs where loop:
    "range_loop S params_nom [0..<nat n_runs] (replicate (nat n_runs) (Fin 0)) = Inr rs"
    using range_loop_pipeline[OF a b] by auto
  have "run_aeroforge_montecarlo seed_state gauss st n_runs seed
          = Inr ((S, rs, params_nom), st5)"
    using assms loop
    by (simp add: run_aeroforge_montecarlo_def Let_def r1 r2 r3 r4 r5 S_def)
  then show ?thesis by blast
qed

lemmas run_eval = run_aeroforge_montecarlo_def demo_seed_def demo_gauss_def
  np_maximum_arr_def perturb_def np_clip_arr_def params_nom_def range_eval

lemma demo_run_1:
  "run_aeroforge_montecarlo demo_seed demo_gauss (0::nat) 1 42 =
     Inr ((\<lparr>s_epack = [450], s_l_over_d = [253 / 10], s_harvest = [27],
            s_sic_gain = [1], s_eta = [207 / 250]\<rparr>,
           [Fin (6847200 / 2157463)], params_nom), 47)"
  by (simp add: run_eval)

lemma demo_run_2:
  "run_aeroforge_montecarlo demo_seed demo_gauss (0::nat) 2 42 =
     Inr ((\<lparr>s_epack = [450, 1125 / 2], s_l_over_d = [143 / 5, 77 / 5],
            s_harvest = [9, 15], s_sic_gain = [162 / 125, 189 / 125],
            s_eta = [92 / 125, 207 / 250]\<rparr>,
           [Fin (449266176 / 140235095), Fin (21092886 / 2157463)], params_nom), 52)"
  by (simp add: run_eval numeral_2_eq_2)





text \<open>
  C6. With a seed NumPy accepts and a trial count that is not negative, the run returns a
  batch of five arrays of length \<open>n_runs\<close>, and at every trial index the pack specific
  energy is at least \<open>200\<close>, the lift-to-drag ratio at least \<open>15\<close>, the harvested power at
  least \<open>0\<close>, the SiC gain at least \<open>1.0\<close> and the system efficiency in \<open>[0.70, 0.98]\<close>.
\<close>

theorem samples_respect_floors:
  assumes "0 \<le> seed" "seed < 2 ^ 32" "0 \<le> n_runs"
  shows "\<exists>s rs st'.
           run_aeroforge_montecarlo seed_state gauss st n_runs seed
             = Inr ((s, rs, params_nom), st')
           \<and> length (s_epack s) = nat n_runs \<and> length (s_l_over_d s) = nat n_runs
           \<and> length (s_harvest s) = nat n_runs \<and> length (s_sic_gain s) = nat n_runs
           \<and> length (s_eta s) = nat n_runs
           \<and> (\<forall>i<nat n_runs.
                 200 \<le> s_epack s ! i \<and> 15 \<le> s_l_over_d s ! i \<and> 0 \<le> s_harvest s ! i
                 \<and> 1 \<le> s_sic_gain s ! i \<and> 0.7 \<le> s_eta s ! i \<and> s_eta s ! i \<le> 0.98)"
proof -
  obtain s rs st' where run:
    "run_aeroforge_montecarlo seed_state gauss st n_runs seed = Inr ((s, rs, params_nom), st')"
    using run_returns[OF assms, where seed_state = seed_state and gauss = gauss and st = st]
    by blast
  have "\<forall>i<nat n_runs.
           200 \<le> s_epack s ! i \<and> 15 \<le> s_l_over_d s ! i \<and> 0 \<le> s_harvest s ! i
           \<and> 1 \<le> s_sic_gain s ! i \<and> 0.7 \<le> s_eta s ! i \<and> s_eta s ! i \<le> 0.98"
    using run_bounds[OF run] by blast
  then show ?thesis
    using run run_lengths[OF run] by blast
qed

text \<open>
  One trial of the demonstration generator: the draw \<open>-2\<close> for the SiC gain gives
  \<open>1.08 * 0.6 = 0.648\<close>, and the sample is the floor \<open>1\<close>.
\<close>

theorem samples_respect_floors_witness:
  "(0::int) \<le> 42 \<and> (42::int) < 2 ^ 32 \<and> (0::int) \<le> 1
   \<and> (\<exists>s rs st'.
         run_aeroforge_montecarlo demo_seed demo_gauss (0::nat) 1 42
           = Inr ((s, rs, params_nom), st')
         \<and> s = \<lparr>s_epack = [450], s_l_over_d = [253 / 10], s_harvest = [27],
                 s_sic_gain = [1], s_eta = [207 / 250]\<rparr>
         \<and> length (s_sic_gain s) = nat 1
         \<and> (\<forall>i<nat 1. 200 \<le> s_epack s ! i \<and> 15 \<le> s_l_over_d s ! i \<and> 0 \<le> s_harvest s ! i
                 \<and> 1 \<le> s_sic_gain s ! i \<and> 0.7 \<le> s_eta s ! i \<and> s_eta s ! i \<le> 0.98))"
proof -
  have h: "(0::int) \<le> 42" "(42::int) < 2 ^ 32" "(0::int) \<le> 1" by simp_all
  obtain s rs st' where r:
    "run_aeroforge_montecarlo demo_seed demo_gauss (0::nat) 1 42 = Inr ((s, rs, params_nom), st')"
    "length (s_sic_gain s) = nat 1"
    "\<forall>i<nat 1. 200 \<le> s_epack s ! i \<and> 15 \<le> s_l_over_d s ! i \<and> 0 \<le> s_harvest s ! i
                 \<and> 1 \<le> s_sic_gain s ! i \<and> 0.7 \<le> s_eta s ! i \<and> s_eta s ! i \<le> 0.98"
    using samples_respect_floors[OF h, of demo_seed demo_gauss 0] by blast
  have "s = \<lparr>s_epack = [450], s_l_over_d = [253 / 10], s_harvest = [27],
                 s_sic_gain = [1], s_eta = [207 / 250]\<rparr>"
    using r(1) unfolding demo_run_1 by simp
  then show ?thesis using h r by blast
qed



text \<open>
  C9. A run is a function of \<open>(n_runs, seed)\<close> alone: \<open>np.random.seed(seed)\<close> replaces
  the generator state found at the call, so two runs with the same arguments return the
  same sample arrays and the same result array (and leave the same generator state),
  whatever the state before each of them.
\<close>

theorem run_deterministic:
  "run_aeroforge_montecarlo seed_state gauss st n_runs seed
     = run_aeroforge_montecarlo seed_state gauss st' n_runs seed"
  by (simp add: run_aeroforge_montecarlo_def)

text \<open>A second run, started from the state the first one left, repeats it.\<close>

theorem run_deterministic_witness:
  "run_aeroforge_montecarlo demo_seed demo_gauss (0::nat) 2 42
     = run_aeroforge_montecarlo demo_seed demo_gauss 52 2 42
   \<and> run_aeroforge_montecarlo demo_seed demo_gauss (52::nat) 2 42 =
     Inr ((\<lparr>s_epack = [450, 1125 / 2], s_l_over_d = [143 / 5, 77 / 5],
            s_harvest = [9, 15], s_sic_gain = [162 / 125, 189 / 125],
            s_eta = [92 / 125, 207 / 250]\<rparr>,
           [Fin (449266176 / 140235095), Fin (21092886 / 2157463)], params_nom), 52)"
  using run_deterministic[of demo_seed demo_gauss 0 2 42 52] demo_run_2 by simp


section \<open>Properties of the statistics\<close>






lemma fdiv_nan_left: "fdiv NaN b = NaN"
  by simp

lemma clip_nan: "fmin (Fin 1) (fmax (Fin (- 1)) NaN) = NaN"
  by simp

lemma deviation_squares_nonneg: "0 \<le> (\<Sum>x\<leftarrow>xs. (x - (m::real))\<^sup>2)"
  by (rule sum_list_nonneg) auto




text \<open>
  C10. For a result array that is not empty, \<open>np.std(ranges_km)\<close> is the population
  standard deviation: the square root of the mean of the squared deviations from the
  mean, the sum divided by \<open>n\<close> and not by \<open>n - 1\<close>.
\<close>

theorem std_is_population_std:
  assumes "ranges_km \<noteq> []"
  shows "np_std ranges_km = Fin (population_std ranges_km)"
proof -
  let ?n = "real (length ranges_km)"
  let ?m = "sum_list ranges_km / ?n"
  let ?S = "\<Sum>x\<leftarrow>ranges_km. (x - ?m)\<^sup>2"
  have n: "?n \<noteq> 0" "0 < ?n" using assms by simp_all
  have r: "real_of_int (max (int (length ranges_km) - 0) 0) = ?n" by simp
  have v: "np_var 0 ranges_km = Fin (?S / ?n)"
    unfolding np_var_def Let_def r using assms n by (simp add: avg_def power2_eq_square)
  have "0 \<le> ?S / ?n"
    using deviation_squares_nonneg[where xs = ranges_km and m = ?m] n by simp
  then have "fsqrt (Fin (?S / ?n)) = Fin (sqrt (?S / ?n))" by simp
  then show ?thesis
    unfolding np_std_def v population_std_def .
qed

text \<open>The array \<open>[1, 3]\<close>: mean \<open>2\<close>, squared deviations \<open>1\<close> and \<open>1\<close>, so \<open>1\<close> (and not \<open>sqrt 2\<close>).\<close>

theorem std_is_population_std_witness:
  "[1, 3 :: real] \<noteq> [] \<and> np_std [1, 3] = Fin (population_std [1, 3])
   \<and> np_std [1, 3] = Fin 1"
proof -
  have h: "[1, 3 :: real] \<noteq> []" by simp
  have "np_std [1, 3] = Fin 1"
    by (simp add: np_std_def np_var_def avg_def Let_def)
  then show ?thesis
    using h std_is_population_std[OF h] by simp
qed

end
